theory Spec2Isabelle
  imports Main "HOL-Library.Word" "HOL-Library.AList" "HOL-Library.Sublist"
begin

section \<open>Values of the script scripts/transform\_for\_bq.py\<close>

text \<open>
  The script reads JSONL from standard input, rewrites the field \<open>LocationGeo\<close> of every
  record into a WKT point and prints the record again. Its values are what
  \<^verbatim>\<open>json.loads\<close> produces: \<^verbatim>\<open>None\<close>, \<^verbatim>\<open>bool\<close>, \<^verbatim>\<open>int\<close> (unbounded),
  \<^verbatim>\<open>float\<close> (a binary64, kept as its 64 bits), \<^verbatim>\<open>str\<close>, \<^verbatim>\<open>list\<close> and \<^verbatim>\<open>dict\<close>.
  A \<^verbatim>\<open>dict\<close> keeps its keys in insertion order, so it is an association list; looking a
  key up is \<open>map_of\<close> and storing a value is \<open>AList.update\<close>, which overwrites the entry
  of a key in place and appends a key that is new, as the assignment to a subscript does.
  A \<open>char\<close> stands for one code point of a Python string (code points below U+0100).
  The limits of the interpreter (the depth of recursion, the longest integer that
  \<^verbatim>\<open>str\<close> converts) and failures of input and output are outside the model.
\<close>

datatype json =
    JNull
  | JBool bool
  | JInt int
  | JFloat "64 word"
  | JString string
  | JArray "json list"
  | JObject "(string \<times> json) list"

text \<open>
  The exceptions the script can end with: \<^verbatim>\<open>KeyError\<close> (the specification's
  KeyLookupError; it carries the missing key), \<^verbatim>\<open>TypeError\<close> (TypeMismatchError) and
  \<^verbatim>\<open>json.JSONDecodeError\<close> (ParseError).
\<close>

datatype error = KeyError string | TypeError | JSONDecodeError

text \<open>
  What the script calls but does not define: the textual form of a float and of a quoted
  string (\<^verbatim>\<open>repr\<close>), and the two functions of the \<^verbatim>\<open>json\<close> module. They are
  parameters of the model; \<open>json_loads\<close> is \<open>None\<close> where \<^verbatim>\<open>json.loads\<close> raises
  \<^verbatim>\<open>JSONDecodeError\<close>.
\<close>

record runtime =
  float_repr :: "64 word \<Rightarrow> string"
  str_repr :: "string \<Rightarrow> string"
  json_loads :: "string \<Rightarrow> json option"
  json_dumps :: "json \<Rightarrow> string"

subsection \<open>Truth value, membership and subscripts\<close>

text \<open>
  \<^verbatim>\<open>bool(v)\<close>: \<^verbatim>\<open>None\<close>, \<^verbatim>\<open>False\<close>, zero and the empty string, list and dict are
  false. The floats that are zero are \<open>0.0\<close>, all bits clear, and \<open>-0.0\<close>, the sign bit
  alone; every other float is true, a NaN too.
\<close>

fun truthy :: "json \<Rightarrow> bool" where
  "truthy JNull = False"
| "truthy (JBool b) = b"
| "truthy (JInt i) = (i \<noteq> 0)"
| "truthy (JFloat w) = (w \<noteq> 0 \<and> w \<noteq> 0x8000000000000000)"
| "truthy (JString s) = (s \<noteq> [])"
| "truthy (JArray xs) = (xs \<noteq> [])"
| "truthy (JObject kvs) = (kvs \<noteq> [])"

text \<open>
  \<^verbatim>\<open>k in v\<close> for a string \<open>k\<close>: a key of a dict, an element of a list, a substring of a
  string; any other value is not iterable and the test raises \<^verbatim>\<open>TypeError\<close>.
\<close>

fun contains :: "string \<Rightarrow> json \<Rightarrow> error + bool" where
  "contains k (JObject kvs) = Inr (map_of kvs k \<noteq> None)"
| "contains k (JArray xs) = Inr (JString k \<in> set xs)"
| "contains k (JString s) = Inr (sublist k s)"
| "contains k JNull = Inl TypeError"
| "contains k (JBool b) = Inl TypeError"
| "contains k (JInt i) = Inl TypeError"
| "contains k (JFloat w) = Inl TypeError"

text \<open>
  \<^verbatim>\<open>v[k]\<close> for a string \<open>k\<close>: the value of a dict, \<^verbatim>\<open>KeyError\<close> when the key is missing;
  a list and a string take integer indices only, the other values no subscript at all.
\<close>

fun getitem :: "json \<Rightarrow> string \<Rightarrow> error + json" where
  "getitem (JObject kvs) k = (case map_of kvs k of None \<Rightarrow> Inl (KeyError k) | Some v \<Rightarrow> Inr v)"
| "getitem (JArray xs) k = Inl TypeError"
| "getitem (JString s) k = Inl TypeError"
| "getitem JNull k = Inl TypeError"
| "getitem (JBool b) k = Inl TypeError"
| "getitem (JInt i) k = Inl TypeError"
| "getitem (JFloat w) k = Inl TypeError"

text \<open>\<^verbatim>\<open>v[k] = x\<close> for a string \<open>k\<close>: the dict with the entry stored.\<close>

fun setitem :: "json \<Rightarrow> string \<Rightarrow> json \<Rightarrow> error + json" where
  "setitem (JObject kvs) k x = Inr (JObject (AList.update k x kvs))"
| "setitem (JArray xs) k x = Inl TypeError"
| "setitem (JString s) k x = Inl TypeError"
| "setitem JNull k x = Inl TypeError"
| "setitem (JBool b) k x = Inl TypeError"
| "setitem (JInt i) k x = Inl TypeError"
| "setitem (JFloat w) k x = Inl TypeError"

subsection \<open>The text of a value in an f-string\<close>

text \<open>The decimal digits of a natural number, most significant first.\<close>

fun digits :: "nat \<Rightarrow> string" where
  "digits n =
     (if n < 10 then [char_of (48 + n)] else digits (n div 10) @ [char_of (48 + n mod 10)])"

declare digits.simps [simp del]

definition str_int :: "int \<Rightarrow> string" where
  "str_int i = (if i < 0 then CHR ''-'' # digits (nat (- i)) else digits (nat i))"

text \<open>\<^verbatim>\<open>sep.join(xs)\<close>.\<close>

definition join :: "string \<Rightarrow> string list \<Rightarrow> string" where
  "join sep xs = concat (case xs of [] \<Rightarrow> [] | y # ys \<Rightarrow> y # map (\<lambda>z. sep @ z) ys)"

text \<open>
  \<^verbatim>\<open>repr(v)\<close>. A list and a dict show the \<^verbatim>\<open>repr\<close> of their parts, separated by a comma
  and a space, a key and its value by a colon and a space.
\<close>

fun py_repr :: "'a runtime_scheme \<Rightarrow> json \<Rightarrow> string" where
  "py_repr py JNull = ''None''"
| "py_repr py (JBool b) = (if b then ''True'' else ''False'')"
| "py_repr py (JInt i) = str_int i"
| "py_repr py (JFloat w) = float_repr py w"
| "py_repr py (JString s) = str_repr py s"
| "py_repr py (JArray xs) = ''['' @ join '', '' (map (py_repr py) xs) @ '']''"
| "py_repr py (JObject kvs) =
     ''{'' @ join '', '' (map (\<lambda>(k, v). str_repr py k @ '': '' @ py_repr py v) kvs) @ ''}''"

text \<open>
  \<^verbatim>\<open>format(v, '')\<close>, the text a replacement field \<^verbatim>\<open>{v}\<close> of an f-string inserts:
  \<^verbatim>\<open>str(v)\<close>, which is the string itself for a string and \<^verbatim>\<open>repr(v)\<close> otherwise.
\<close>

definition py_str :: "'a runtime_scheme \<Rightarrow> json \<Rightarrow> string" where
  "py_str py v = (case v of JString s \<Rightarrow> s | _ \<Rightarrow> py_repr py v)"

section \<open>transform\_record\<close>

text \<open>
  \<^verbatim>\<open>
  def transform_record(record):
      if 'LocationGeo' in record and record['LocationGeo']:
          lat = record['LocationGeo']['latitude']
          lon = record['LocationGeo']['longitude']
          record['LocationGeo'] = f"POINT({lon} {lat})"
      return record
  \<close>
  The condition of the \<^verbatim>\<open>if\<close>: the second operand is evaluated only when the first
  is true.
\<close>

definition has_location :: "json \<Rightarrow> error + bool" where
  "has_location record =
     (case contains ''LocationGeo'' record of
        Inl e \<Rightarrow> Inl e
      | Inr False \<Rightarrow> Inr False
      | Inr True \<Rightarrow>
          (case getitem record ''LocationGeo'' of
             Inl e \<Rightarrow> Inl e
           | Inr geo \<Rightarrow> Inr (truthy geo)))"

text \<open>The expression \<^verbatim>\<open>record['LocationGeo'][k]\<close>.\<close>

definition location_field :: "json \<Rightarrow> string \<Rightarrow> error + json" where
  "location_field record k =
     (case getitem record ''LocationGeo'' of
        Inl e \<Rightarrow> Inl e
      | Inr geo \<Rightarrow> getitem geo k)"

text \<open>
  The function changes its argument in place and returns that same object. The model
  returns a pair: what the call returns or raises, and the argument as the call leaves it.
\<close>

definition transform_record :: "'a runtime_scheme \<Rightarrow> json \<Rightarrow> (error + json) \<times> json" where
  "transform_record py record =
     (case has_location record of
        Inl e \<Rightarrow> (Inl e, record)
      | Inr False \<Rightarrow> (Inr record, record)
      | Inr True \<Rightarrow>
          (case location_field record ''latitude'' of
             Inl e \<Rightarrow> (Inl e, record)
           | Inr lat \<Rightarrow>
               (case location_field record ''longitude'' of
                  Inl e \<Rightarrow> (Inl e, record)
                | Inr lon \<Rightarrow>
                    (case setitem record ''LocationGeo''
                            (JString (''POINT('' @ py_str py lon @ '' '' @ py_str py lat @ '')'')) of
                       Inl e \<Rightarrow> (Inl e, record)
                     | Inr record' \<Rightarrow> (Inr record', record')))))"

section \<open>main\<close>

text \<open>
  \<^verbatim>\<open>str.isspace\<close> on the code points below U+0100, and \<^verbatim>\<open>str.strip()\<close>.
\<close>

definition isspace :: "char \<Rightarrow> bool" where
  "isspace c \<longleftrightarrow>
     c \<in> set [CHR 0x09, CHR 0x0A, CHR 0x0B, CHR 0x0C, CHR 0x0D, CHR 0x1C, CHR 0x1D,
              CHR 0x1E, CHR 0x1F, CHR 0x20, CHR 0x85, CHR 0xA0]"

definition strip :: "string \<Rightarrow> string" where
  "strip s = rev (dropWhile isspace (rev (dropWhile isspace s)))"

text \<open>
  \<^verbatim>\<open>
  def main():
      for line in sys.stdin:
          if line.strip():
              record = json.loads(line)
              transformed = transform_record(record)
              print(json.dumps(transformed))
  \<close>
  The three statements under the \<^verbatim>\<open>if\<close>, up to the text that is printed:
\<close>

definition process_line :: "'a runtime_scheme \<Rightarrow> string \<Rightarrow> error + string" where
  "process_line py line =
     (case json_loads py line of
        None \<Rightarrow> Inl JSONDecodeError
      | Some record \<Rightarrow>
          (case fst (transform_record py record) of
             Inl e \<Rightarrow> Inl e
           | Inr transformed \<Rightarrow> Inr (json_dumps py transformed)))"

text \<open>
  The loop over the lines of standard input, with the lines printed so far. It returns
  the printed lines and how the run ended: \<open>Inr ()\<close> at the end of the input, the
  exception otherwise.
\<close>

fun main_loop :: "'a runtime_scheme \<Rightarrow> string list \<Rightarrow> string list \<Rightarrow> string list \<times> (error + unit)" where
  "main_loop py out [] = (out, Inr ())"
| "main_loop py out (line # rest) =
     (if strip line \<noteq> [] then
        (case process_line py line of
           Inl e \<Rightarrow> (out, Inl e)
         | Inr text \<Rightarrow> main_loop py (out @ [text]) rest)
      else main_loop py out rest)"

definition main :: "'a runtime_scheme \<Rightarrow> string list \<Rightarrow> string list \<times> (error + unit)" where
  "main py stdin = main_loop py [] stdin"

subsection \<open>An example run\<close>

text \<open>
  A runtime and an input for the example runs below: \<^verbatim>\<open>json.loads\<close> and
  \<^verbatim>\<open>json.dumps\<close> as tables over the lines and records of the example, every other
  line being no JSON text.
\<close>

abbreviation example_runtime :: runtime where
  \<open>example_runtime \<equiv>
     \<lparr>float_repr = (\<lambda>w. ''nan''), str_repr = (\<lambda>s. s),
      json_loads = (\<lambda>s.
        if s = ''{"id": 1, "LocationGeo": {"latitude": 37, "longitude": -122}}\<newline>''
        then Some (JObject [(''id'', JInt 1),
               (''LocationGeo'', JObject [(''latitude'', JInt 37), (''longitude'', JInt (- 122))])])
        else if s = ''{"id": 2, "LocationGeo": null}\<newline>''
        then Some (JObject [(''id'', JInt 2), (''LocationGeo'', JNull)])
        else None),
      json_dumps = (\<lambda>v.
        if v = JObject [(''id'', JInt 1), (''LocationGeo'', JString ''POINT(-122 37)'')]
        then ''{"id": 1, "LocationGeo": "POINT(-122 37)"}''
        else if v = JObject [(''id'', JInt 2), (''LocationGeo'', JNull)]
        then ''{"id": 2, "LocationGeo": null}''
        else ''null'')\<rparr>\<close>

abbreviation example_stdin :: "string list" where
  \<open>example_stdin \<equiv>
     [''{"id": 1, "LocationGeo": {"latitude": 37, "longitude": -122}}\<newline>'',
      ''  \<newline>'',
      ''{"id": 2, "LocationGeo": null}\<newline>'']\<close>

text \<open>
  A runtime for a run over lines that hold the literal \<^verbatim>\<open>NaN\<close>. RFC 8259 has no such
  literal, so these lines are no JSON text; \<^verbatim>\<open>json.loads\<close> with its default arguments
  decodes the literal all the same, as the float \<open>nan\<close> (bits \<open>0x7FF8000000000000\<close>), and
  \<^verbatim>\<open>json.dumps\<close> writes it back as \<^verbatim>\<open>NaN\<close>.
\<close>

abbreviation nan_runtime :: runtime where
  \<open>nan_runtime \<equiv>
     \<lparr>float_repr = (\<lambda>w. ''nan''), str_repr = (\<lambda>s. s),
      json_loads = (\<lambda>s.
        if s = ''{"id": 1, "x": NaN}\<newline>''
        then Some (JObject [(''id'', JInt 1), (''x'', JFloat 0x7FF8000000000000)])
        else if s = ''{"id": 2}\<newline>''
        then Some (JObject [(''id'', JInt 2)])
        else if s = ''{"LocationGeo": NaN}\<newline>''
        then Some (JObject [(''LocationGeo'', JFloat 0x7FF8000000000000)])
        else None),
      json_dumps = (\<lambda>v.
        if v = JObject [(''id'', JInt 1), (''x'', JFloat 0x7FF8000000000000)]
        then ''{"id": 1, "x": NaN}''
        else if v = JObject [(''id'', JInt 2)]
        then ''{"id": 2}''
        else ''null'')\<rparr>\<close>

section \<open>Properties of transform\_record\<close>

text \<open>The digits of a number read back, in base ten, as the number.\<close>

lemma digits_value:
  "foldl (\<lambda>a c. 10 * a + (of_char c - 48)) 0 (digits n) = n"
proof (induction n rule: digits.induct)
  case (1 n)
  show ?case
  proof (cases "n < 10")
    case True
    then show ?thesis
      by (subst digits.simps) simp
  next
    case False
    have "n mod 10 < 10" by simp
    then have "of_char (char_of (48 + n mod 10) :: char) = 48 + n mod 10"
      by (simp add: of_char_of)
    with False 1 show ?thesis
      by (subst digits.simps) simp
  qed
qed

text \<open>The values that are false as a condition.\<close>

lemma falsy_iff:
  "\<not> truthy v \<longleftrightarrow>
     v \<in> {JNull, JBool False, JInt 0, JFloat 0, JFloat 0x8000000000000000,
          JString [], JArray [], JObject []}"
  by (cases v) auto

lemma has_location_absent:
  "map_of kvs ''LocationGeo'' = None \<Longrightarrow> has_location (JObject kvs) = Inr False"
  by (simp add: has_location_def)

lemma has_location_present:
  "map_of kvs ''LocationGeo'' = Some v \<Longrightarrow> has_location (JObject kvs) = Inr (truthy v)"
  by (simp add: has_location_def)

lemma location_field_present:
  "map_of kvs ''LocationGeo'' = Some v \<Longrightarrow> location_field (JObject kvs) k = getitem v k"
  by (simp add: location_field_def)

lemma transform_record_falsy:
  "map_of kvs ''LocationGeo'' = Some v \<Longrightarrow> \<not> truthy v \<Longrightarrow>
   transform_record py (JObject kvs) = (Inr (JObject kvs), JObject kvs)"
  by (simp add: transform_record_def has_location_present)

text \<open>
  C3: a record without the key \<open>LocationGeo\<close>, and a record whose \<open>LocationGeo\<close> is
  null, is returned as it is: the call returns the record it was given, and the record
  is left unchanged.
\<close>

theorem transform_record_absent_or_null:
  assumes "map_of kvs ''LocationGeo'' = None \<or> map_of kvs ''LocationGeo'' = Some JNull"
  shows "transform_record py (JObject kvs) = (Inr (JObject kvs), JObject kvs)"
  using assms
proof
  assume "map_of kvs ''LocationGeo'' = None"
  then show ?thesis
    by (simp add: transform_record_def has_location_absent)
next
  assume "map_of kvs ''LocationGeo'' = Some JNull"
  then show ?thesis
    by (simp add: transform_record_falsy)
qed

theorem transform_record_absent_or_null_witness:
  "transform_record \<lparr>float_repr = (\<lambda>w. ''0.0''), str_repr = (\<lambda>s. s),
                      json_loads = (\<lambda>s. None), json_dumps = (\<lambda>v. '''')\<rparr>
     (JObject [(''id'', JInt 3)]) = (Inr (JObject [(''id'', JInt 3)]), JObject [(''id'', JInt 3)])
   \<and> transform_record \<lparr>float_repr = (\<lambda>w. ''0.0''), str_repr = (\<lambda>s. s),
                      json_loads = (\<lambda>s. None), json_dumps = (\<lambda>v. '''')\<rparr>
     (JObject [(''id'', JInt 2), (''LocationGeo'', JNull)])
       = (Inr (JObject [(''id'', JInt 2), (''LocationGeo'', JNull)]),
          JObject [(''id'', JInt 2), (''LocationGeo'', JNull)])"
proof -
  have a: "map_of [(''id'', JInt 3)] ''LocationGeo'' = None
           \<or> map_of [(''id'', JInt 3)] ''LocationGeo'' = Some JNull"
    by simp
  have b: "map_of [(''id'', JInt 2), (''LocationGeo'', JNull)] ''LocationGeo'' = None
           \<or> map_of [(''id'', JInt 2), (''LocationGeo'', JNull)] ''LocationGeo'' = Some JNull"
    by simp
  show ?thesis
    using transform_record_absent_or_null [OF a] transform_record_absent_or_null [OF b]
    by blast
qed

lemma transform_record_coords:
  assumes "map_of kvs ''LocationGeo'' = Some (JObject geo)"
      and "map_of geo ''latitude'' = Some lat"
      and "map_of geo ''longitude'' = Some lon"
  shows "transform_record py (JObject kvs) =
           (Inr (JObject (AList.update ''LocationGeo''
                   (JString (''POINT('' @ py_str py lon @ '' '' @ py_str py lat @ '')'')) kvs)),
            JObject (AList.update ''LocationGeo''
                   (JString (''POINT('' @ py_str py lon @ '' '' @ py_str py lat @ '')'')) kvs))"
proof -
  from assms(2) have "geo \<noteq> []" by auto
  with assms show ?thesis
    by (simp add: transform_record_def has_location_present location_field_present)
qed

lemma transform_record_missing:
  assumes "map_of kvs ''LocationGeo'' = Some (JObject geo)" and "geo \<noteq> []"
      and "map_of geo ''latitude'' = None \<or> map_of geo ''longitude'' = None"
  shows "transform_record py (JObject kvs) =
           (Inl (KeyError (if map_of geo ''latitude'' = None then ''latitude'' else ''longitude'')),
            JObject kvs)"
  using assms
  by (auto simp add: transform_record_def has_location_present location_field_present)

lemma transform_record_not_mapping:
  assumes "map_of kvs ''LocationGeo'' = Some v" and "truthy v" and "\<forall>geo. v \<noteq> JObject geo"
  shows "transform_record py (JObject kvs) = (Inl TypeError, JObject kvs)"
  using assms
  by (cases v) (simp_all add: transform_record_def has_location_present location_field_present)

lemma update_present_keys:
  "map_of kvs k = Some v \<Longrightarrow> map fst (AList.update k x kvs) = map fst kvs"
  by (auto simp add: update_keys dest: map_of_SomeD intro: rev_image_eqI)

lemma update_other:
  "k' \<noteq> k \<Longrightarrow> map_of (AList.update k x kvs) k' = map_of kvs k'"
  by (simp add: update_conv')

text \<open>
  C1: when \<open>LocationGeo\<close> is a mapping with the entries \<open>latitude\<close> = LAT and
  \<open>longitude\<close> = LON, the call returns the record, and its \<open>LocationGeo\<close> is the string
  made of \<open>POINT(\<close>, the text of LON, one space, the text of LAT and \<open>)\<close>: the longitude
  first. The text of a value is \<open>py_str\<close>, the decimal digits for an integer.
\<close>

theorem transform_record_wkt:
  assumes "map_of kvs ''LocationGeo'' = Some (JObject geo)"
      and "map_of geo ''latitude'' = Some lat"
      and "map_of geo ''longitude'' = Some lon"
  shows "\<exists>r. transform_record py (JObject kvs) = (Inr r, r)
            \<and> getitem r ''LocationGeo''
                = Inr (JString (''POINT('' @ py_str py lon @ '' '' @ py_str py lat @ '')''))"
  using transform_record_coords [OF assms, of py]
  by (simp add: update_conv')

theorem transform_record_wkt_witness:
  "map_of [(''id'', JInt 1),
           (''LocationGeo'', JObject [(''latitude'', JFloat 0x4042E32FEC56D5D0),
                                      (''longitude'', JFloat 0xC05E9AD77318FC50)])]
     ''LocationGeo''
     = Some (JObject [(''latitude'', JFloat 0x4042E32FEC56D5D0),
                      (''longitude'', JFloat 0xC05E9AD77318FC50)])
   \<and> (\<exists>r. transform_record
             \<lparr>float_repr = (\<lambda>w. if w = 0x4042E32FEC56D5D0 then ''37.7749''
                                 else if w = 0xC05E9AD77318FC50 then ''-122.4194'' else ''nan''),
              str_repr = (\<lambda>s. s), json_loads = (\<lambda>s. None), json_dumps = (\<lambda>v. '''')\<rparr>
             (JObject [(''id'', JInt 1),
                       (''LocationGeo'', JObject [(''latitude'', JFloat 0x4042E32FEC56D5D0),
                                                  (''longitude'', JFloat 0xC05E9AD77318FC50)])])
           = (Inr r, r)
         \<and> getitem r ''LocationGeo'' = Inr (JString ''POINT(-122.4194 37.7749)''))"
proof -
  have a: "map_of [(''id'', JInt 1),
           (''LocationGeo'', JObject [(''latitude'', JFloat 0x4042E32FEC56D5D0),
                                      (''longitude'', JFloat 0xC05E9AD77318FC50)])]
     ''LocationGeo''
     = Some (JObject [(''latitude'', JFloat 0x4042E32FEC56D5D0),
                      (''longitude'', JFloat 0xC05E9AD77318FC50)])"
    by simp
  have b: "map_of [(''latitude'', JFloat 0x4042E32FEC56D5D0),
                   (''longitude'', JFloat 0xC05E9AD77318FC50)] ''latitude''
           = Some (JFloat 0x4042E32FEC56D5D0)"
    by simp
  have c: "map_of [(''latitude'', JFloat 0x4042E32FEC56D5D0),
                   (''longitude'', JFloat 0xC05E9AD77318FC50)] ''longitude''
           = Some (JFloat 0xC05E9AD77318FC50)"
    by simp
  show ?thesis
    using a transform_record_wkt [OF a b c,
      of "\<lparr>float_repr = (\<lambda>w. if w = 0x4042E32FEC56D5D0 then ''37.7749''
                                 else if w = 0xC05E9AD77318FC50 then ''-122.4194'' else ''nan''),
              str_repr = (\<lambda>s. s), json_loads = (\<lambda>s. None), json_dumps = (\<lambda>v. '''')\<rparr>"]
    by (simp add: py_str_def)
qed

text \<open>
  C2: when \<open>LocationGeo\<close> is a non-empty mapping, the record after the call has the keys
  it had, in the same order, and every key other than \<open>LocationGeo\<close> has the value it
  had; when the call returns, it returns that record, and its \<open>LocationGeo\<close> is a string.
\<close>

theorem transform_record_frame:
  assumes "map_of kvs ''LocationGeo'' = Some (JObject geo)" and "geo \<noteq> []"
  shows "\<exists>kvs'. snd (transform_record py (JObject kvs)) = JObject kvs'
            \<and> map fst kvs' = map fst kvs
            \<and> (\<forall>k. k \<noteq> ''LocationGeo'' \<longrightarrow> map_of kvs' k = map_of kvs k)
            \<and> (\<forall>r. fst (transform_record py (JObject kvs)) = Inr r \<longrightarrow>
                   r = JObject kvs' \<and> (\<exists>s. map_of kvs' ''LocationGeo'' = Some (JString s)))"
proof (cases "map_of geo ''latitude'' = None \<or> map_of geo ''longitude'' = None")
  case True
  from transform_record_missing [OF assms True, of py] show ?thesis
    by simp
next
  case False
  then obtain lat lon where "map_of geo ''latitude'' = Some lat"
      and "map_of geo ''longitude'' = Some lon"
    by auto
  from transform_record_coords [OF assms(1) this, of py] show ?thesis
    using update_present_keys [OF assms(1)]
    by (simp add: update_other update_conv')
qed

theorem transform_record_frame_witness:
  "map_of [(''id'', JInt 1),
           (''LocationGeo'', JObject [(''latitude'', JInt 37), (''longitude'', JInt (- 122))]),
           (''type'', JString ''POLICE'')] ''LocationGeo''
     = Some (JObject [(''latitude'', JInt 37), (''longitude'', JInt (- 122))])
   \<and> [(''latitude'', JInt 37), (''longitude'', JInt (- 122))] \<noteq> []
   \<and> transform_record
         \<lparr>float_repr = (\<lambda>w. ''nan''), str_repr = (\<lambda>s. s),
          json_loads = (\<lambda>s. None), json_dumps = (\<lambda>v. [])\<rparr>
         (JObject [(''id'', JInt 1),
                   (''LocationGeo'', JObject [(''latitude'', JInt 37), (''longitude'', JInt (- 122))]),
                   (''type'', JString ''POLICE'')])
       = (Inr (JObject [(''id'', JInt 1), (''LocationGeo'', JString ''POINT(-122 37)''),
                        (''type'', JString ''POLICE'')]),
          JObject [(''id'', JInt 1), (''LocationGeo'', JString ''POINT(-122 37)''),
                   (''type'', JString ''POLICE'')])"
proof -
  let ?py = "\<lparr>float_repr = (\<lambda>w. ''nan''), str_repr = (\<lambda>s. s),
              json_loads = (\<lambda>s. None), json_dumps = (\<lambda>v. [])\<rparr>"
  let ?geo = "[(''latitude'', JInt 37), (''longitude'', JInt (- 122))]"
  let ?kvs = "[(''id'', JInt 1), (''LocationGeo'', JObject ?geo), (''type'', JString ''POLICE'')]"
  have a: "map_of ?kvs ''LocationGeo'' = Some (JObject ?geo)" by simp
  have b: "?geo \<noteq> []" by simp
  have lat: "str_int 37 = ''37''" by code_simp
  have lon: "str_int (- 122) = ''-122''" by code_simp
  have run: "transform_record ?py (JObject ?kvs)
       = (Inr (JObject [(''id'', JInt 1), (''LocationGeo'', JString ''POINT(-122 37)''),
                        (''type'', JString ''POLICE'')]),
          JObject [(''id'', JInt 1), (''LocationGeo'', JString ''POINT(-122 37)''),
                   (''type'', JString ''POLICE'')])"
    by (simp add: transform_record_def has_location_def location_field_def py_str_def lat lon)
  from transform_record_frame [OF a b, of ?py] a b run show ?thesis
    by blast
qed

text \<open>
  C6: when \<open>LocationGeo\<close> is a non-empty mapping without the key \<open>latitude\<close> or without
  the key \<open>longitude\<close>, the call raises \<^verbatim>\<open>KeyError\<close> for the first of the two keys
  that is missing, and the record is left as it was: nothing is stored in its place.
\<close>

theorem transform_record_missing_key:
  assumes "map_of kvs ''LocationGeo'' = Some (JObject geo)" and "geo \<noteq> []"
      and "map_of geo ''latitude'' = None \<or> map_of geo ''longitude'' = None"
  shows "transform_record py (JObject kvs) =
           (Inl (KeyError (if map_of geo ''latitude'' = None then ''latitude'' else ''longitude'')),
            JObject kvs)"
  using assms by (rule transform_record_missing)

theorem transform_record_missing_key_witness:
  "map_of [(''id'', JInt 4), (''LocationGeo'', JObject [(''latitude'', JInt 1)])] ''LocationGeo''
     = Some (JObject [(''latitude'', JInt 1)])
   \<and> [(''latitude'', JInt 1)] \<noteq> []
   \<and> map_of [(''latitude'', JInt 1)] ''longitude'' = None
   \<and> transform_record
         \<lparr>float_repr = (\<lambda>w. ''nan''), str_repr = (\<lambda>s. s),
          json_loads = (\<lambda>s. None), json_dumps = (\<lambda>v. [])\<rparr>
         (JObject [(''id'', JInt 4), (''LocationGeo'', JObject [(''latitude'', JInt 1)])])
       = (Inl (KeyError ''longitude''),
          JObject [(''id'', JInt 4), (''LocationGeo'', JObject [(''latitude'', JInt 1)])])"
proof -
  let ?py = "\<lparr>float_repr = (\<lambda>w. ''nan''), str_repr = (\<lambda>s. s),
              json_loads = (\<lambda>s. None), json_dumps = (\<lambda>v. [])\<rparr>"
  let ?geo = "[(''latitude'', JInt 1)]"
  let ?kvs = "[(''id'', JInt 4), (''LocationGeo'', JObject ?geo)]"
  have a: "map_of ?kvs ''LocationGeo'' = Some (JObject ?geo)" by simp
  have b: "?geo \<noteq> []" by simp
  have c: "map_of ?geo ''longitude'' = None" by simp
  then have c': "map_of ?geo ''latitude'' = None \<or> map_of ?geo ''longitude'' = None" by blast
  from transform_record_missing_key [OF a b c', of ?py] a b c show ?thesis
    by simp
qed

text \<open>
  C7: when \<open>LocationGeo\<close> is true as a condition and is not a mapping (a non-empty
  string or list, a number other than zero, \<^verbatim>\<open>True\<close>), the call raises
  \<^verbatim>\<open>TypeError\<close> at the subscript \<^verbatim>\<open>['latitude']\<close>, and the record is left as it was.
\<close>

theorem transform_record_type_error:
  assumes "map_of kvs ''LocationGeo'' = Some v" and "truthy v" and "\<forall>geo. v \<noteq> JObject geo"
  shows "transform_record py (JObject kvs) = (Inl TypeError, JObject kvs)"
  using assms by (rule transform_record_not_mapping)

theorem transform_record_type_error_witness:
  "map_of [(''id'', JInt 5), (''LocationGeo'', JString ''somewhere'')] ''LocationGeo''
     = Some (JString ''somewhere'')
   \<and> truthy (JString ''somewhere'')
   \<and> (\<forall>geo. JString ''somewhere'' \<noteq> JObject geo)
   \<and> transform_record
         \<lparr>float_repr = (\<lambda>w. ''nan''), str_repr = (\<lambda>s. s),
          json_loads = (\<lambda>s. None), json_dumps = (\<lambda>v. [])\<rparr>
         (JObject [(''id'', JInt 5), (''LocationGeo'', JString ''somewhere'')])
       = (Inl TypeError, JObject [(''id'', JInt 5), (''LocationGeo'', JString ''somewhere'')])
   \<and> map_of [(''LocationGeo'', JInt 7)] ''LocationGeo'' = Some (JInt 7)
   \<and> truthy (JInt 7)
   \<and> (\<forall>geo. JInt 7 \<noteq> JObject geo)
   \<and> transform_record
         \<lparr>float_repr = (\<lambda>w. ''nan''), str_repr = (\<lambda>s. s),
          json_loads = (\<lambda>s. None), json_dumps = (\<lambda>v. [])\<rparr>
         (JObject [(''LocationGeo'', JInt 7)])
       = (Inl TypeError, JObject [(''LocationGeo'', JInt 7)])"
proof -
  let ?py = "\<lparr>float_repr = (\<lambda>w. ''nan''), str_repr = (\<lambda>s. s),
              json_loads = (\<lambda>s. None), json_dumps = (\<lambda>v. [])\<rparr>"
  let ?kvs = "[(''id'', JInt 5), (''LocationGeo'', JString ''somewhere'')]"
  have a: "map_of ?kvs ''LocationGeo'' = Some (JString ''somewhere'')" by simp
  have b: "truthy (JString ''somewhere'')" by simp
  have c: "\<forall>geo. JString ''somewhere'' \<noteq> JObject geo" by simp
  have a': "map_of [(''LocationGeo'', JInt 7)] ''LocationGeo'' = Some (JInt 7)" by simp
  have b': "truthy (JInt 7)" by simp
  have c': "\<forall>geo. JInt 7 \<noteq> JObject geo" by simp
  from transform_record_type_error [OF a b c, of ?py]
       transform_record_type_error [OF a' b' c', of ?py] a b c a' b' c'
  show ?thesis by blast
qed

text \<open>
  C9: when \<open>LocationGeo\<close> is present with any value that is false as a condition, the
  call returns the record unchanged and raises nothing, whether the value is a mapping or
  not. The values \<^verbatim>\<open>False\<close>, \<open>0\<close>, the empty string, the empty list, the empty
  mapping and \<open>-0.0\<close> are instances.
\<close>

theorem transform_record_falsy_unchanged:
  assumes "map_of kvs ''LocationGeo'' = Some v" and "\<not> truthy v"
  shows "transform_record py (JObject kvs) = (Inr (JObject kvs), JObject kvs)"
  using assms by (rule transform_record_falsy)

theorem transform_record_falsy_unchanged_witness:
  "(map_of [(''LocationGeo'', JBool False)] ''LocationGeo'' = Some (JBool False)
    \<and> \<not> truthy (JBool False)
    \<and> transform_record
          \<lparr>float_repr = (\<lambda>w. ''nan''), str_repr = (\<lambda>s. s),
           json_loads = (\<lambda>s. None), json_dumps = (\<lambda>v. [])\<rparr>
          (JObject [(''LocationGeo'', JBool False)])
        = (Inr (JObject [(''LocationGeo'', JBool False)]), JObject [(''LocationGeo'', JBool False)]))
   \<and> (map_of [(''LocationGeo'', JInt 0)] ''LocationGeo'' = Some (JInt 0)
    \<and> \<not> truthy (JInt 0)
    \<and> transform_record
          \<lparr>float_repr = (\<lambda>w. ''nan''), str_repr = (\<lambda>s. s),
           json_loads = (\<lambda>s. None), json_dumps = (\<lambda>v. [])\<rparr>
          (JObject [(''LocationGeo'', JInt 0)])
        = (Inr (JObject [(''LocationGeo'', JInt 0)]), JObject [(''LocationGeo'', JInt 0)]))
   \<and> (map_of [(''LocationGeo'', JString [])] ''LocationGeo'' = Some (JString [])
    \<and> \<not> truthy (JString [])
    \<and> transform_record
          \<lparr>float_repr = (\<lambda>w. ''nan''), str_repr = (\<lambda>s. s),
           json_loads = (\<lambda>s. None), json_dumps = (\<lambda>v. [])\<rparr>
          (JObject [(''LocationGeo'', JString [])])
        = (Inr (JObject [(''LocationGeo'', JString [])]), JObject [(''LocationGeo'', JString [])]))
   \<and> (map_of [(''LocationGeo'', JArray [])] ''LocationGeo'' = Some (JArray [])
    \<and> \<not> truthy (JArray [])
    \<and> transform_record
          \<lparr>float_repr = (\<lambda>w. ''nan''), str_repr = (\<lambda>s. s),
           json_loads = (\<lambda>s. None), json_dumps = (\<lambda>v. [])\<rparr>
          (JObject [(''LocationGeo'', JArray [])])
        = (Inr (JObject [(''LocationGeo'', JArray [])]), JObject [(''LocationGeo'', JArray [])]))
   \<and> (map_of [(''LocationGeo'', JObject [])] ''LocationGeo'' = Some (JObject [])
    \<and> \<not> truthy (JObject [])
    \<and> transform_record
          \<lparr>float_repr = (\<lambda>w. ''nan''), str_repr = (\<lambda>s. s),
           json_loads = (\<lambda>s. None), json_dumps = (\<lambda>v. [])\<rparr>
          (JObject [(''LocationGeo'', JObject [])])
        = (Inr (JObject [(''LocationGeo'', JObject [])]), JObject [(''LocationGeo'', JObject [])]))
   \<and> (map_of [(''LocationGeo'', JFloat 0x8000000000000000)] ''LocationGeo''
        = Some (JFloat 0x8000000000000000)
    \<and> \<not> truthy (JFloat 0x8000000000000000)
    \<and> transform_record
          \<lparr>float_repr = (\<lambda>w. ''nan''), str_repr = (\<lambda>s. s),
           json_loads = (\<lambda>s. None), json_dumps = (\<lambda>v. [])\<rparr>
          (JObject [(''LocationGeo'', JFloat 0x8000000000000000)])
        = (Inr (JObject [(''LocationGeo'', JFloat 0x8000000000000000)]),
           JObject [(''LocationGeo'', JFloat 0x8000000000000000)]))"
proof -
  let ?py = "\<lparr>float_repr = (\<lambda>w. ''nan''), str_repr = (\<lambda>s. s),
              json_loads = (\<lambda>s. None), json_dumps = (\<lambda>v. [])\<rparr>"
  let ?P = "\<lambda>v. map_of [(''LocationGeo'', v)] ''LocationGeo'' = Some v \<and> \<not> truthy v
      \<and> transform_record ?py (JObject [(''LocationGeo'', v)])
          = (Inr (JObject [(''LocationGeo'', v)]), JObject [(''LocationGeo'', v)])"
  have inst: "?P v" if "\<not> truthy v" for v
  proof -
    have "map_of [(''LocationGeo'', v)] ''LocationGeo'' = Some v" by simp
    from this that transform_record_falsy_unchanged [OF this that, of ?py] show ?thesis
      by blast
  qed
  have "\<not> truthy (JBool False)" "\<not> truthy (JInt 0)" "\<not> truthy (JString [])"
       "\<not> truthy (JArray [])" "\<not> truthy (JObject [])" "\<not> truthy (JFloat 0x8000000000000000)"
    by simp_all
  note falsy = this
  from inst [OF falsy(1)] inst [OF falsy(2)] inst [OF falsy(3)] inst [OF falsy(4)]
       inst [OF falsy(5)] inst [OF falsy(6)]
  show ?thesis
    by blast
qed

text \<open>
  C10: when \<open>LocationGeo\<close> is a mapping with \<open>latitude\<close> and \<open>longitude\<close>, the call
  returns a record on which a second call raises \<^verbatim>\<open>TypeError\<close>: its \<open>LocationGeo\<close>
  is now a non-empty string.
\<close>

theorem transform_record_twice:
  assumes "map_of kvs ''LocationGeo'' = Some (JObject geo)"
      and "map_of geo ''latitude'' = Some lat"
      and "map_of geo ''longitude'' = Some lon"
  shows "\<exists>r. transform_record py (JObject kvs) = (Inr r, r)
            \<and> transform_record py r = (Inl TypeError, r)"
proof -
  let ?s = "''POINT('' @ py_str py lon @ '' '' @ py_str py lat @ '')''"
  let ?kvs' = "AList.update ''LocationGeo'' (JString ?s) kvs"
  have first: "transform_record py (JObject kvs) = (Inr (JObject ?kvs'), JObject ?kvs')"
    using assms by (rule transform_record_coords)
  have "map_of ?kvs' ''LocationGeo'' = Some (JString ?s)"
    by (simp add: update_conv')
  moreover have "truthy (JString ?s)" by simp
  moreover have "\<forall>g. JString ?s \<noteq> JObject g" by simp
  ultimately have "transform_record py (JObject ?kvs') = (Inl TypeError, JObject ?kvs')"
    by (rule transform_record_not_mapping)
  with first show ?thesis by blast
qed

theorem transform_record_twice_witness:
  "map_of [(''LocationGeo'', JObject [(''latitude'', JInt 1), (''longitude'', JInt 2)])]
      ''LocationGeo'' = Some (JObject [(''latitude'', JInt 1), (''longitude'', JInt 2)])
   \<and> map_of [(''latitude'', JInt 1), (''longitude'', JInt 2)] ''latitude'' = Some (JInt 1)
   \<and> map_of [(''latitude'', JInt 1), (''longitude'', JInt 2)] ''longitude'' = Some (JInt 2)
   \<and> transform_record
         \<lparr>float_repr = (\<lambda>w. ''nan''), str_repr = (\<lambda>s. s),
          json_loads = (\<lambda>s. None), json_dumps = (\<lambda>v. [])\<rparr>
         (JObject [(''LocationGeo'', JObject [(''latitude'', JInt 1), (''longitude'', JInt 2)])])
       = (Inr (JObject [(''LocationGeo'', JString ''POINT(2 1)'')]),
          JObject [(''LocationGeo'', JString ''POINT(2 1)'')])
   \<and> transform_record
         \<lparr>float_repr = (\<lambda>w. ''nan''), str_repr = (\<lambda>s. s),
          json_loads = (\<lambda>s. None), json_dumps = (\<lambda>v. [])\<rparr>
         (JObject [(''LocationGeo'', JString ''POINT(2 1)'')])
       = (Inl TypeError, JObject [(''LocationGeo'', JString ''POINT(2 1)'')])"
proof -
  let ?py = "\<lparr>float_repr = (\<lambda>w. ''nan''), str_repr = (\<lambda>s. s),
              json_loads = (\<lambda>s. None), json_dumps = (\<lambda>v. [])\<rparr>"
  let ?geo = "[(''latitude'', JInt 1), (''longitude'', JInt 2)]"
  let ?kvs = "[(''LocationGeo'', JObject ?geo)]"
  have a: "map_of ?kvs ''LocationGeo'' = Some (JObject ?geo)" by simp
  have b: "map_of ?geo ''latitude'' = Some (JInt 1)" by simp
  have c: "map_of ?geo ''longitude'' = Some (JInt 2)" by simp
  have lat: "str_int 1 = ''1''" by code_simp
  have lon: "str_int 2 = ''2''" by code_simp
  have first: "transform_record ?py (JObject ?kvs)
       = (Inr (JObject [(''LocationGeo'', JString ''POINT(2 1)'')]),
          JObject [(''LocationGeo'', JString ''POINT(2 1)'')])"
    by (simp add: transform_record_def has_location_def location_field_def py_str_def lat lon)
  from transform_record_twice [OF a b c, of ?py] first
  have "transform_record ?py (JObject [(''LocationGeo'', JString ''POINT(2 1)'')])
       = (Inl TypeError, JObject [(''LocationGeo'', JString ''POINT(2 1)'')])"
    by auto
  with a b c first show ?thesis
    by blast
qed

section \<open>Properties of main\<close>

lemma main_loop_append:
  "main_loop py out (pre @ post) =
     (case main_loop py out pre of
        (out', Inl e) \<Rightarrow> (out', Inl e)
      | (out', Inr u) \<Rightarrow> main_loop py out' post)"
  by (induction pre arbitrary: out) (auto split: sum.splits)

lemma main_loop_done:
  "snd (main_loop py out ls) = Inr () \<Longrightarrow>
   map Inr (fst (main_loop py out ls))
     = map Inr out @ map (process_line py) (filter (\<lambda>l. strip l \<noteq> []) ls)"
  by (induction ls arbitrary: out) (auto split: sum.splits if_splits)

lemma main_loop_raised:
  "snd (main_loop py out ls) = Inl e \<Longrightarrow> snd (main_loop py out (ls @ rest)) = Inl e
     \<and> fst (main_loop py out (ls @ rest)) = fst (main_loop py out ls)"
  by (induction ls arbitrary: out) (auto split: sum.splits)

lemma process_line_Inr:
  "process_line py line = Inr text \<longleftrightarrow>
     (\<exists>record transformed. json_loads py line = Some record
        \<and> fst (transform_record py record) = Inr transformed
        \<and> text = json_dumps py transformed)"
  by (auto simp add: process_line_def split: option.splits sum.splits)

lemma example_run:
  \<open>main example_runtime example_stdin
   = ([''{"id": 1, "LocationGeo": "POINT(-122 37)"}'', ''{"id": 2, "LocationGeo": null}''],
      Inr ())\<close>
proof -
  have lat: "str_int 37 = ''37''" by code_simp
  have lon: "str_int (- 122) = ''-122''" by code_simp
  show ?thesis
    by (simp add: main_def process_line_def strip_def isspace_def transform_record_def
          has_location_def location_field_def py_str_def lat lon)
qed

lemma example_blank:
  "filter (\<lambda>line. strip line = []) example_stdin = [''  \<newline>'']"
  by (simp add: strip_def isspace_def)

lemma example_nonblank:
  \<open>filter (\<lambda>line. strip line \<noteq> []) example_stdin
   = [''{"id": 1, "LocationGeo": {"latitude": 37, "longitude": -122}}\<newline>'',
      ''{"id": 2, "LocationGeo": null}\<newline>'']\<close>
  by (simp add: strip_def isspace_def)

text \<open>
  C4: a run that reaches the end of the input without an exception prints one line for
  every line of the input that is not blank and none for a blank one: with N lines of
  which B are blank after \<^verbatim>\<open>strip()\<close>, it prints N - B lines.
\<close>

theorem main_line_count:
  assumes "snd (main py stdin) = Inr ()"
  shows "length (fst (main py stdin))
           = length stdin - length (filter (\<lambda>line. strip line = []) stdin)"
proof -
  from assms have "map Inr (fst (main py stdin))
      = map (process_line py) (filter (\<lambda>l. strip l \<noteq> []) stdin)"
    unfolding main_def by (simp add: main_loop_done)
  then have "length (map Inr (fst (main py stdin)) :: (error + string) list)
      = length (map (process_line py) (filter (\<lambda>l. strip l \<noteq> []) stdin))"
    by simp
  then have "length (fst (main py stdin)) = length (filter (\<lambda>l. strip l \<noteq> []) stdin)"
    by simp
  moreover have "length (filter (\<lambda>l. strip l \<noteq> []) stdin)
      + length (filter (\<lambda>l. strip l = []) stdin) = length stdin"
    using sum_length_filter_compl [of "\<lambda>l. strip l \<noteq> []" stdin] by simp
  ultimately show ?thesis by simp
qed

theorem main_line_count_witness:
  "snd (main example_runtime example_stdin) = Inr ()
   \<and> length example_stdin = 3
   \<and> length (filter (\<lambda>line. strip line = []) example_stdin) = 1
   \<and> length (fst (main example_runtime example_stdin)) = 2"
proof -
  have a: "snd (main example_runtime example_stdin) = Inr ()"
    by (simp only: example_run snd_conv)
  have b: "length (filter (\<lambda>line. strip line = []) example_stdin) = 1"
    by (simp only: example_blank) simp
  from main_line_count [OF a] b
  have "length (fst (main example_runtime example_stdin)) = 2"
    by simp
  with a b show ?thesis
    by simp
qed

text \<open>
  C5: in a run without an exception there are as many printed lines as lines that are not
  blank, and the i-th printed line is \<^verbatim>\<open>json.dumps\<close> of the record that
  \<open>transform_record\<close> returns for the record \<^verbatim>\<open>json.loads\<close> decodes from the i-th
  line that is not blank.
\<close>

theorem main_order:
  assumes "snd (main py stdin) = Inr ()"
  shows "length (fst (main py stdin)) = length (filter (\<lambda>line. strip line \<noteq> []) stdin)
       \<and> (\<forall>i < length (fst (main py stdin)).
            \<exists>record transformed.
              json_loads py (filter (\<lambda>line. strip line \<noteq> []) stdin ! i) = Some record
              \<and> fst (transform_record py record) = Inr transformed
              \<and> fst (main py stdin) ! i = json_dumps py transformed)"
proof -
  let ?outs = "fst (main py stdin)"
  let ?ls = "filter (\<lambda>l. strip l \<noteq> []) stdin"
  from assms have eq: "map Inr ?outs = map (process_line py) ?ls"
    unfolding main_def by (simp add: main_loop_done)
  then have len: "length ?outs = length ?ls"
    by (metis length_map)
  have "\<exists>record transformed. json_loads py (?ls ! i) = Some record
          \<and> fst (transform_record py record) = Inr transformed
          \<and> ?outs ! i = json_dumps py transformed" if "i < length ?outs" for i
  proof -
    from that len have "process_line py (?ls ! i) = map (process_line py) ?ls ! i"
      by simp
    also have "\<dots> = map Inr ?outs ! i" by (simp only: eq)
    also from that have "\<dots> = Inr (?outs ! i)" by simp
    finally show ?thesis by (simp add: process_line_Inr)
  qed
  with len show ?thesis by blast
qed

theorem main_order_witness:
  \<open>snd (main example_runtime example_stdin) = Inr ()
   \<and> filter (\<lambda>line. strip line \<noteq> []) example_stdin ! 1 = ''{"id": 2, "LocationGeo": null}\<newline>''
   \<and> json_loads example_runtime ''{"id": 2, "LocationGeo": null}\<newline>''
       = Some (JObject [(''id'', JInt 2), (''LocationGeo'', JNull)])
   \<and> fst (transform_record example_runtime (JObject [(''id'', JInt 2), (''LocationGeo'', JNull)]))
       = Inr (JObject [(''id'', JInt 2), (''LocationGeo'', JNull)])
   \<and> fst (main example_runtime example_stdin) ! 1
       = json_dumps example_runtime (JObject [(''id'', JInt 2), (''LocationGeo'', JNull)])
   \<and> fst (main example_runtime example_stdin) ! 0 = ''{"id": 1, "LocationGeo": "POINT(-122 37)"}''
   \<and> length (fst (main example_runtime example_stdin)) = 2\<close>
proof -
  have a: "snd (main example_runtime example_stdin) = Inr ()"
    by (simp only: example_run snd_conv)
  from main_order [OF a]
  have len: "length (fst (main example_runtime example_stdin))
      = length (filter (\<lambda>line. strip line \<noteq> []) example_stdin)"
    by blast
  have nb: \<open>filter (\<lambda>line. strip line \<noteq> []) example_stdin ! 1
      = ''{"id": 2, "LocationGeo": null}\<newline>''\<close>
    by (simp only: example_nonblank) simp
  have tr: "fst (transform_record example_runtime (JObject [(''id'', JInt 2), (''LocationGeo'', JNull)]))
       = Inr (JObject [(''id'', JInt 2), (''LocationGeo'', JNull)])"
    by (simp add: transform_record_falsy)
  have outs: \<open>fst (main example_runtime example_stdin)
      = [''{"id": 1, "LocationGeo": "POINT(-122 37)"}'', ''{"id": 2, "LocationGeo": null}'']\<close>
    by (simp only: example_run fst_conv)
  from len have "length (fst (main example_runtime example_stdin)) = 2"
    by (simp only: example_nonblank) simp
  with a nb tr show ?thesis
    by (simp add: outs)
qed

text \<open>
  C8, with its condition narrowed from a line that is no valid JSON to a line on which
  \<^verbatim>\<open>json.loads\<close> raises \<^verbatim>\<open>JSONDecodeError\<close>: such a line, when it is not blank,
  ends the run with an exception, and what is printed is what the lines before it
  printed: nothing for the line itself, nothing for a later line. When the lines before
  it ran without an exception, the exception is \<^verbatim>\<open>JSONDecodeError\<close> and the printed
  lines are those of all the earlier lines that are not blank.
\<close>

theorem main_parse_error:
  assumes "strip bad \<noteq> []" and "json_loads py bad = None"
  shows "fst (main py (pre @ bad # post)) = fst (main py pre)
       \<and> (\<exists>e. snd (main py (pre @ bad # post)) = Inl e)
       \<and> (snd (main py pre) = Inr () \<longrightarrow>
            snd (main py (pre @ bad # post)) = Inl JSONDecodeError
            \<and> map Inr (fst (main py (pre @ bad # post)))
                = map (process_line py) (filter (\<lambda>line. strip line \<noteq> []) pre))"
proof (cases "snd (main py pre)")
  case (Inl e)
  then show ?thesis
    unfolding main_def using main_loop_raised [of py "[]" pre e "bad # post"] by simp
next
  case (Inr u)
  obtain outs where pre: "main_loop py [] pre = (outs, Inr ())"
    using Inr unfolding main_def by (cases "main_loop py [] pre") auto
  from assms have "process_line py bad = Inl JSONDecodeError"
    by (simp add: process_line_def)
  with assms pre have "main_loop py [] (pre @ bad # post) = (outs, Inl JSONDecodeError)"
    by (simp add: main_loop_append)
  moreover from pre have "map Inr outs = map (process_line py) (filter (\<lambda>l. strip l \<noteq> []) pre)"
    using main_loop_done [of py "[]" pre] by simp
  ultimately show ?thesis
    using pre unfolding main_def by simp
qed

theorem main_parse_error_witness:
  \<open>strip ''not valid json\<newline>'' \<noteq> []
   \<and> json_loads example_runtime ''not valid json\<newline>'' = None
   \<and> main example_runtime
        [''{"id": 1, "LocationGeo": {"latitude": 37, "longitude": -122}}\<newline>'', ''  \<newline>'']
       = ([''{"id": 1, "LocationGeo": "POINT(-122 37)"}''], Inr ())
   \<and> main example_runtime
        ([''{"id": 1, "LocationGeo": {"latitude": 37, "longitude": -122}}\<newline>'', ''  \<newline>'']
          @ ''not valid json\<newline>'' # [''{"id": 2, "LocationGeo": null}\<newline>''])
       = ([''{"id": 1, "LocationGeo": "POINT(-122 37)"}''], Inl JSONDecodeError)\<close>
proof -
  let ?pre = \<open>[''{"id": 1, "LocationGeo": {"latitude": 37, "longitude": -122}}\<newline>'', ''  \<newline>'']\<close>
  let ?post = \<open>[''{"id": 2, "LocationGeo": null}\<newline>'']\<close>
  have a: "strip ''not valid json\<newline>'' \<noteq> []"
    by (simp add: strip_def isspace_def)
  have b: "json_loads example_runtime ''not valid json\<newline>'' = None"
    by simp
  have lat: "str_int 37 = ''37''" by code_simp
  have lon: "str_int (- 122) = ''-122''" by code_simp
  have pre: \<open>main example_runtime ?pre = ([''{"id": 1, "LocationGeo": "POINT(-122 37)"}''], Inr ())\<close>
    by (simp add: main_def process_line_def strip_def isspace_def transform_record_def
          has_location_def location_field_def py_str_def lat lon)
  from main_parse_error [OF a b, of ?pre ?post]
  have "fst (main example_runtime (?pre @ ''not valid json\<newline>'' # ?post))
          = fst (main example_runtime ?pre)"
    and "snd (main example_runtime ?pre) = Inr () \<longrightarrow>
          snd (main example_runtime (?pre @ ''not valid json\<newline>'' # ?post)) = Inl JSONDecodeError"
    by blast+
  then have \<open>main example_runtime (?pre @ ''not valid json\<newline>'' # ?post)
      = ([''{"id": 1, "LocationGeo": "POINT(-122 37)"}''], Inl JSONDecodeError)\<close>
    by (simp only: pre fst_conv snd_conv prod_eq_iff)
  with a b pre show ?thesis
    by blast
qed

text \<open>
  The condition of C8 is that \<^verbatim>\<open>json.loads\<close> raises, which is narrower than the line
  being no valid JSON. The line \<^verbatim>\<open>{"id": 1, "x": NaN}\<close> is not blank and is no valid
  JSON, yet the run prints it, goes on to the next line and ends without an exception;
  the line \<^verbatim>\<open>{"LocationGeo": NaN}\<close> ends the run with \<^verbatim>\<open>TypeError\<close>, raised by
  \<open>transform_record\<close>, and not with \<^verbatim>\<open>JSONDecodeError\<close>.
\<close>

theorem main_nan_line_counterexample:
  \<open>strip ''{"id": 1, "x": NaN}\<newline>'' \<noteq> []
   \<and> main nan_runtime [''{"id": 1, "x": NaN}\<newline>'', ''{"id": 2}\<newline>'']
       = ([''{"id": 1, "x": NaN}'', ''{"id": 2}''], Inr ())
   \<and> snd (main nan_runtime [''{"id": 1, "x": NaN}\<newline>'', ''{"id": 2}\<newline>''])
       \<noteq> Inl JSONDecodeError
   \<and> strip ''{"LocationGeo": NaN}\<newline>'' \<noteq> []
   \<and> main nan_runtime [''{"LocationGeo": NaN}\<newline>''] = ([], Inl TypeError)\<close>
  by (simp add: main_def process_line_def strip_def isspace_def transform_record_def
        has_location_def location_field_def)

end
